theory Spec2Isabelle
  imports Complex_Main "HOL-Library.AList"
begin

section \<open>Data model\<close>

text \<open>
  Samples are the elements of a \<^verbatim>\<open>Float32Array\<close>. They are modelled as real numbers;
  the value NaN is outside the model. Where the code computes a sample, the roundings of
  the arithmetic and of the store are written out. Sample indices and lengths are integers;
  the remaining synthesis parameters are JavaScript numbers, modelled as reals.
\<close>

type_synonym sample = real

datatype error =
    InstanceFreed          \<comment> \<open>\<^verbatim>\<open>Error('Granular instance has been freed')\<close>\<close>
  | WasmNotInitialized     \<comment> \<open>\<^verbatim>\<open>Error('WASM module not initialized. Call initWasm() first.')\<close>\<close>
  | MemoryNotAvailable     \<comment> \<open>\<^verbatim>\<open>Error('WASM module not initialized or memory not available')\<close>\<close>
  | IndexSizeError         \<comment> \<open>\<^verbatim>\<open>getChannelData\<close> with a channel index out of range\<close>
  | RangeError             \<comment> \<open>\<^verbatim>\<open>TypedArray.prototype.set\<close> with a source that does not fit\<close>

text \<open>
  A JavaScript counting loop \<^verbatim>\<open>for (let i = a; i < b; i++) body\<close> whose body changes
  neither \<^verbatim>\<open>i\<close> nor the bound is \<open>fold body [a..<b]\<close> on the state the body updates.
\<close>

subsection \<open>AudioBuffer (Web Audio)\<close>

text \<open>
  An \<^verbatim>\<open>AudioBuffer\<close> holds \<^verbatim>\<open>numberOfChannels\<close> channels of \<^verbatim>\<open>length\<close> samples each.
  The field \<^verbatim>\<open>length\<close> is named \<open>ab_length\<close> here, since \<open>length\<close> is the list function.
\<close>

record AudioBuffer =
  ab_length :: nat
  sampleRate :: real
  channelData :: "sample list list"

definition numberOfChannels :: "AudioBuffer \<Rightarrow> nat" where
  "numberOfChannels b = length (channelData b)"

text \<open>What the Web Audio API guarantees of every AudioBuffer it hands out.\<close>

definition wf_AudioBuffer :: "AudioBuffer \<Rightarrow> bool" where
  "wf_AudioBuffer b =
     (channelData b \<noteq> [] \<and> list_all (\<lambda>c. length c = ab_length b) (channelData b))"

definition getChannelData :: "AudioBuffer \<Rightarrow> nat \<Rightarrow> error + sample list" where
  "getChannelData b c =
     (if c < numberOfChannels b then Inr (channelData b ! c) else Inl IndexSizeError)"

subsection \<open>The engine instance wrapper (wasm module, class GranularInstance)\<close>

record GranularInstance =
  instancePtr :: "nat option"

subsection \<open>The store (useGranularStore.ts)\<close>

record GranularState =
  audioBuffer :: "AudioBuffer option"
  processedBuffer :: "sample list option"
  granularInstance :: "GranularInstance option"
  selectionStartSampleIx :: int
  selectionEndSampleIx :: int
  grainSize :: real
  voice1FilterCutoff :: real
  voice2FilterCutoff :: real
  linearSlopeLength :: real
  slopeLinearity :: real
  voice1MovementSamplesPerSample :: real
  voice2MovementSamplesPerSample :: real
  voice1SampleSpeedRatio :: real
  voice2SampleSpeedRatio :: real
  voice1SamplesBetweenGrains :: real
  voice2SamplesBetweenGrains :: real
  voice1Gain :: real
  voice2Gain :: real
  voice1GrainStartRandomnessSamples :: real
  voice2GrainStartRandomnessSamples :: real
  density :: real
  isPlaying :: bool
  audioContext :: "nat option"
  sourceNode :: "nat option"
  workletNode :: "nat option"

definition initialState :: GranularState where
  "initialState =
     \<lparr> audioBuffer = None,
       processedBuffer = None,
       granularInstance = None,
       selectionStartSampleIx = 0,
       selectionEndSampleIx = 0,
       grainSize = 800,
       voice1FilterCutoff = 0,
       voice2FilterCutoff = 0,
       linearSlopeLength = 1 / 2,
       slopeLinearity = 1 / 2,
       voice1MovementSamplesPerSample = 1 / 10,
       voice2MovementSamplesPerSample = 1 / 10,
       voice1SampleSpeedRatio = 1,
       voice2SampleSpeedRatio = 1,
       voice1SamplesBetweenGrains = 400,
       voice2SamplesBetweenGrains = 400,
       voice1Gain = 1,
       voice2Gain = 1,
       voice1GrainStartRandomnessSamples = 200,
       voice2GrainStartRandomnessSamples = 0,
       density = 20,
       isPlaying = False,
       audioContext = None,
       sourceNode = None,
       workletNode = None \<rparr>"

text \<open>
  \<^verbatim>\<open>setAudioBuffer\<close>: store the buffer; when it is not null, reset the selection to the
  whole buffer.
\<close>

definition setAudioBuffer :: "AudioBuffer option \<Rightarrow> GranularState \<Rightarrow> GranularState" where
  "setAudioBuffer buffer st =
     (let st1 = st\<lparr>audioBuffer := buffer\<rparr>
      in case buffer of
           None \<Rightarrow> st1
         | Some b \<Rightarrow> st1\<lparr>selectionStartSampleIx := 0,
                          selectionEndSampleIx := int (ab_length b)\<rparr>)"

definition setProcessedBuffer :: "sample list option \<Rightarrow> GranularState \<Rightarrow> GranularState" where
  "setProcessedBuffer buffer st = st\<lparr>processedBuffer := buffer\<rparr>"

definition setSelectionStartSampleIx :: "int \<Rightarrow> GranularState \<Rightarrow> GranularState" where
  "setSelectionStartSampleIx v st = st\<lparr>selectionStartSampleIx := v\<rparr>"

definition setSelectionEndSampleIx :: "int \<Rightarrow> GranularState \<Rightarrow> GranularState" where
  "setSelectionEndSampleIx v st = st\<lparr>selectionEndSampleIx := v\<rparr>"

definition setDensity :: "real \<Rightarrow> GranularState \<Rightarrow> GranularState" where
  "setDensity d st = st\<lparr>density := d\<rparr>"

text \<open>
  The snapshot \<^verbatim>\<open>GranularParams\<close> is a JavaScript object literal: an association list of
  property names and numbers, in the order the literal lists them.
\<close>

type_synonym GranularParams = "(string \<times> real) list"

definition getGranularParams :: "GranularState \<Rightarrow> GranularParams" where
  "getGranularParams state =
     [ (''selectionStartSampleIx'', real_of_int (selectionStartSampleIx state)),
       (''selectionEndSampleIx'', real_of_int (selectionEndSampleIx state)),
       (''grainSize'', grainSize state),
       (''voice1FilterCutoff'', voice1FilterCutoff state),
       (''voice2FilterCutoff'', voice2FilterCutoff state),
       (''linearSlopeLength'', linearSlopeLength state),
       (''slopeLinearity'', slopeLinearity state),
       (''voice1MovementSamplesPerSample'', voice1MovementSamplesPerSample state),
       (''voice2MovementSamplesPerSample'', voice2MovementSamplesPerSample state),
       (''voice1SampleSpeedRatio'', voice1SampleSpeedRatio state),
       (''voice2SampleSpeedRatio'', voice2SampleSpeedRatio state),
       (''voice1SamplesBetweenGrains'', voice1SamplesBetweenGrains state),
       (''voice2SamplesBetweenGrains'', voice2SamplesBetweenGrains state),
       (''voice1Gain'', voice1Gain state),
       (''voice2Gain'', voice2Gain state),
       (''voice1GrainStartRandomnessSamples'', voice1GrainStartRandomnessSamples state),
       (''voice2GrainStartRandomnessSamples'', voice2GrainStartRandomnessSamples state) ]"

section \<open>Selection editor (component Waveform)\<close>

datatype DragState =
    DragNone                     \<comment> \<open>\<^verbatim>\<open>{ type: 'none' }\<close>\<close>
  | StartMarker                  \<comment> \<open>\<^verbatim>\<open>{ type: 'start-marker' }\<close>\<close>
  | EndMarker                    \<comment> \<open>\<^verbatim>\<open>{ type: 'end-marker' }\<close>\<close>
  | Selection int                \<comment> \<open>\<^verbatim>\<open>{ type: 'selection', startOffsetSamples }\<close>\<close>

text \<open>
  The component's own state (\<^verbatim>\<open>useState\<close>) together with the store it reads and writes.
  Every handler runs on the values of the last render, so it reads the state it is given
  and returns the updated one.
\<close>

record Waveform =
  dragState :: DragState
  isDragging :: bool
  store :: GranularState

definition MARKER_HIT_RADIUS :: real where
  "MARKER_HIT_RADIUS = 8"

definition SELECTION_HIT_MARGIN :: real where
  "SELECTION_HIT_MARGIN = 5"

definition width :: real where
  "width = 1400"

text \<open>
  \<open>dataLength\<close> is \<^verbatim>\<open>data.length\<close>, the length of the displayed buffer. The quotient and
  the product of the pixel mapping are exact real numbers here; the code computes them in
  double precision, which can land one below the exact floor.
\<close>

definition sampleToPixel :: "nat \<Rightarrow> int \<Rightarrow> int" where
  "sampleToPixel dataLength sampleIx =
     (if dataLength = 0 then 0
      else \<lfloor>(real_of_int sampleIx / real dataLength) * width\<rfloor>)"

definition pixelToSample :: "nat \<Rightarrow> real \<Rightarrow> int" where
  "pixelToSample dataLength pixelX =
     (if dataLength = 0 then 0
      else (let clampedX = max 0 (min width pixelX)
            in \<lfloor>(clampedX / width) * real dataLength\<rfloor>))"

definition getDragType :: "nat \<Rightarrow> GranularState \<Rightarrow> real \<Rightarrow> DragState" where
  "getDragType dataLength st x =
     (let startX = real_of_int (sampleToPixel dataLength (selectionStartSampleIx st));
          endX = real_of_int (sampleToPixel dataLength (selectionEndSampleIx st))
      in if \<bar>x - startX\<bar> < MARKER_HIT_RADIUS then StartMarker
         else if \<bar>x - endX\<bar> < MARKER_HIT_RADIUS then EndMarker
         else if x \<ge> startX - SELECTION_HIT_MARGIN \<and> x \<le> endX + SELECTION_HIT_MARGIN
              then Selection 0
         else DragNone)"

text \<open>\<open>x\<close> is \<^verbatim>\<open>e.clientX - rect.left\<close>; the canvas is taken to be mounted.\<close>

definition handleMouseDown :: "nat \<Rightarrow> real \<Rightarrow> Waveform \<Rightarrow> Waveform" where
  "handleMouseDown dataLength x w =
     (let st = store w;
          dragType = getDragType dataLength st x
      in if dragType \<noteq> DragNone then
           (case dragType of
              Selection _ \<Rightarrow>
                (let clickSample = pixelToSample dataLength x;
                     startOffsetSamples = clickSample - selectionStartSampleIx st
                 in w\<lparr>dragState := Selection startOffsetSamples, isDragging := True\<rparr>)
            | _ \<Rightarrow> w\<lparr>dragState := dragType, isDragging := True\<rparr>)
         else
           (let sampleIx = pixelToSample dataLength x
            in if \<bar>x - real_of_int (sampleToPixel dataLength (selectionStartSampleIx st))\<bar>
                  < \<bar>x - real_of_int (sampleToPixel dataLength (selectionEndSampleIx st))\<bar>
               then w\<lparr>store := setSelectionStartSampleIx sampleIx st\<rparr>
               else w\<lparr>store := setSelectionEndSampleIx sampleIx st\<rparr>))"

definition handleMouseMove :: "nat \<Rightarrow> real \<Rightarrow> Waveform \<Rightarrow> Waveform" where
  "handleMouseMove dataLength x w =
     (if \<not> isDragging w \<or> dragState w = DragNone then w
      else
        (let st = store w;
             sampleIx = pixelToSample dataLength x
         in case dragState w of
              StartMarker \<Rightarrow>
                (let clamped = min sampleIx (selectionEndSampleIx st - 1)
                 in w\<lparr>store := setSelectionStartSampleIx (max 0 clamped) st\<rparr>)
            | EndMarker \<Rightarrow>
                (let clamped = max sampleIx (selectionStartSampleIx st + 1)
                 in w\<lparr>store := setSelectionEndSampleIx (min (int dataLength) clamped) st\<rparr>)
            | Selection startOffsetSamples \<Rightarrow>
                (let newStart = sampleIx - startOffsetSamples;
                     newEnd = newStart + (selectionEndSampleIx st - selectionStartSampleIx st)
                 in if newStart < 0 then
                      (let diff = 0 - newStart
                       in w\<lparr>store :=
                            setSelectionEndSampleIx
                              (min (int dataLength) (selectionEndSampleIx st + diff))
                              (setSelectionStartSampleIx 0 st)\<rparr>)
                    else if newEnd > int dataLength then
                      (let diff = newEnd - int dataLength
                       in w\<lparr>store :=
                            setSelectionStartSampleIx
                              (max 0 (selectionStartSampleIx st - diff))
                              (setSelectionEndSampleIx (int dataLength) st)\<rparr>)
                    else
                      w\<lparr>store :=
                           setSelectionEndSampleIx newEnd
                             (setSelectionStartSampleIx newStart st)\<rparr>)
            | DragNone \<Rightarrow> w))"

definition handleMouseUp :: "Waveform \<Rightarrow> Waveform" where
  "handleMouseUp w = w\<lparr>dragState := DragNone, isDragging := False\<rparr>"

definition handleMouseLeave :: "Waveform \<Rightarrow> Waveform" where
  "handleMouseLeave w = w\<lparr>dragState := DragNone, isDragging := False\<rparr>"

text \<open>The pointer events of the canvas, and the handler each one runs.\<close>

datatype pointer_event =
    PointerDown real
  | PointerMove real
  | PointerUp
  | PointerLeave

fun handle_event :: "nat \<Rightarrow> Waveform \<Rightarrow> pointer_event \<Rightarrow> Waveform" where
  "handle_event dataLength w (PointerDown x) = handleMouseDown dataLength x w"
| "handle_event dataLength w (PointerMove x) = handleMouseMove dataLength x w"
| "handle_event dataLength w PointerUp = handleMouseUp w"
| "handle_event dataLength w PointerLeave = handleMouseLeave w"

definition handle_events :: "nat \<Rightarrow> Waveform \<Rightarrow> pointer_event list \<Rightarrow> Waveform" where
  "handle_events dataLength w evs = foldl (handle_event dataLength) w evs"

text \<open>The selection invariant of the Parameter Set.\<close>

definition selection_ok :: "nat \<Rightarrow> GranularState \<Rightarrow> bool" where
  "selection_ok dataLength st =
     (0 \<le> selectionStartSampleIx st \<and> selectionStartSampleIx st < selectionEndSampleIx st
      \<and> selectionEndSampleIx st \<le> int dataLength)"

section \<open>Audio utilities (utils/audio.ts)\<close>

text \<open>
  JavaScript computes \<^verbatim>\<open>(left[i] + right[i]) / 2\<close> in double precision, rounding after the
  addition and after the division, and the store into the \<^verbatim>\<open>Float32Array\<close> rounds the
  quotient to single precision. The two roundings are parameters: \<open>to_double\<close> takes a real
  to the double the operation returns, \<open>to_single\<close> takes it to the single-precision value
  the store keeps (\<^verbatim>\<open>Math.fround\<close>).
\<close>

record float_rounding =
  to_double :: "real \<Rightarrow> real"
  to_single :: "real \<Rightarrow> real"

text \<open>
  \<^verbatim>\<open>audioBufferToFloat32Array\<close>: a mono buffer is returned as it is; otherwise channels 0
  and 1 are mixed sample by sample. The reads \<^verbatim>\<open>left[i]\<close> and \<^verbatim>\<open>right[i]\<close> are in range in
  every well-formed buffer.
\<close>

definition audioBufferToFloat32Array ::
  "float_rounding \<Rightarrow> AudioBuffer \<Rightarrow> error + sample list" where
  "audioBufferToFloat32Array fr buffer =
     (if numberOfChannels buffer = 1 then getChannelData buffer 0
      else
        (case getChannelData buffer 0 of
           Inl e \<Rightarrow> Inl e
         | Inr left \<Rightarrow>
             (case (if numberOfChannels buffer > 1 then getChannelData buffer 1 else Inr left) of
                Inl e \<Rightarrow> Inl e
              | Inr right \<Rightarrow>
                  (let mono = replicate (length left) (0::real)
                   in Inr (fold (\<lambda>i mono. mono[i :=
                                   to_single fr
                                     (to_double fr (to_double fr (left ! i + right ! i) / 2))])
                             [0..<length left] mono)))))"

text \<open>
  The spec's words, for comparison: the per-sample average over all channels of a buffer,
  first as a real number, then as floating-point arithmetic computes and stores it (the sum
  and the quotient in double precision, the store in single precision).
\<close>

definition channel_average :: "AudioBuffer \<Rightarrow> nat \<Rightarrow> real" where
  "channel_average b i =
     sum_list (map (\<lambda>c. c ! i) (channelData b)) / real (numberOfChannels b)"

definition float_channel_average :: "float_rounding \<Rightarrow> AudioBuffer \<Rightarrow> nat \<Rightarrow> real" where
  "float_channel_average fr b i =
     to_single fr
       (to_double fr
          (to_double fr (sum_list (map (\<lambda>c. c ! i) (channelData b)))
             / real (numberOfChannels b)))"

section \<open>Engine binding (wasm module)\<close>

text \<open>
  The compiled engine package \<^verbatim>\<open>audio-engine/pkg/audio_engine\<close> is not part of the sources;
  its four entry points and the \<^verbatim>\<open>Float32Array\<close> view of its linear memory are parameters.
  \<open>'w\<close> is the state of the instantiated module (engine state and memory). The calls take the
  instance pointer first and return the resulting pointer with the new module state.
  \<open>f32_get w k\<close> is \<^verbatim>\<open>new Float32Array(memory.buffer)[k]\<close> as stored into a Float32Array,
  \<open>f32_set k v\<close> is the assignment to that element.
\<close>

record 'w audio_engine =
  create_granular_instance :: "'w \<Rightarrow> nat \<times> 'w"
  get_granular_waveform_ptr :: "nat \<Rightarrow> nat \<Rightarrow> 'w \<Rightarrow> nat \<times> 'w"
  render_granular :: "nat \<Rightarrow> real option list \<Rightarrow> 'w \<Rightarrow> nat \<times> 'w"
  free_granular_instance :: "nat \<Rightarrow> 'w \<Rightarrow> 'w"
  has_memory :: "'w \<Rightarrow> bool"
  f32_get :: "'w \<Rightarrow> real \<Rightarrow> sample"
  f32_set :: "real \<Rightarrow> sample \<Rightarrow> 'w \<Rightarrow> 'w"

text \<open>
  The module's two globals. \<^verbatim>\<open>initWasm\<close> sets \<^verbatim>\<open>wasmModule\<close> and then
  \<^verbatim>\<open>wasmInitialized\<close>, so an instance can only exist when the module does; the engine calls
  of a missing module are reported as the error the source raises for it.
\<close>

record 'w wasm_state =
  wasmInitialized :: bool
  wasmModule :: "'w option"

definition isWasmInitialized :: "'w wasm_state \<Rightarrow> bool" where
  "isWasmInitialized wasm = wasmInitialized wasm"

text \<open>The constructor of \<^verbatim>\<open>GranularInstance\<close>.\<close>

definition new_GranularInstance ::
  "'w audio_engine \<Rightarrow> 'w wasm_state \<Rightarrow> error + (GranularInstance \<times> 'w wasm_state)" where
  "new_GranularInstance api wasm =
     (if \<not> wasmInitialized wasm then Inl WasmNotInitialized
      else
        (case wasmModule wasm of
           None \<Rightarrow> Inl WasmNotInitialized
         | Some w \<Rightarrow>
             (let (ptr, w') = create_granular_instance api w
              in Inr (\<lparr>instancePtr = Some ptr\<rparr>, wasm\<lparr>wasmModule := Some w'\<rparr>))))"

definition createGranularInstance ::
  "'w audio_engine \<Rightarrow> 'w wasm_state \<Rightarrow> error + (GranularInstance \<times> 'w wasm_state)" where
  "createGranularInstance api wasm =
     (if \<not> wasmInitialized wasm then Inl WasmNotInitialized
      else new_GranularInstance api wasm)"

definition setWaveform ::
  "'w audio_engine \<Rightarrow> sample list \<Rightarrow> GranularInstance \<Rightarrow> 'w wasm_state
     \<Rightarrow> error + 'w wasm_state" where
  "setWaveform api waveform inst wasm =
     (case instancePtr inst of
        None \<Rightarrow> Inl InstanceFreed
      | Some iptr \<Rightarrow>
          (case wasmModule wasm of
             None \<Rightarrow> Inl MemoryNotAvailable
           | Some w \<Rightarrow>
               (let len = length waveform;
                    (ptr, w1) = get_granular_waveform_ptr api iptr len w
                in if \<not> has_memory api w1 then Inl MemoryNotAvailable
                   else
                     (let offset = real ptr / 4
                      in Inr (wasm\<lparr>wasmModule :=
                                Some (fold (\<lambda>i m. f32_set api (offset + real i) (waveform ! i) m)
                                        [0..<len] w1)\<rparr>)))))"

text \<open>
  The parameters \<^verbatim>\<open>renderFrame\<close> passes to \<^verbatim>\<open>render_granular\<close> by position, after the
  instance pointer. Reading a property the object lacks gives \<^verbatim>\<open>undefined\<close> (\<open>None\<close>).
\<close>

definition render_granular_args :: "GranularParams \<Rightarrow> real option list" where
  "render_granular_args params =
     map (map_of params)
       [ ''selectionStartSampleIx'',
         ''selectionEndSampleIx'',
         ''grainSize'',
         ''voice1FilterCutoff'',
         ''voice2FilterCutoff'',
         ''linearSlopeLength'',
         ''slopeLinearity'',
         ''voice1MovementSamplesPerSample'',
         ''voice2MovementSamplesPerSample'',
         ''voice1SampleSpeedRatio'',
         ''voice2SampleSpeedRatio'',
         ''voice1SamplesBetweenGrains'',
         ''voice2SamplesBetweenGrains'',
         ''voice1Gain'',
         ''voice2Gain'',
         ''voice1GrainStartRandomnessSamples'',
         ''voice2GrainStartRandomnessSamples'' ]"

definition renderFrame ::
  "'w audio_engine \<Rightarrow> GranularParams \<Rightarrow> GranularInstance \<Rightarrow> 'w wasm_state
     \<Rightarrow> error + (sample list \<times> 'w wasm_state)" where
  "renderFrame api params inst wasm =
     (case instancePtr inst of
        None \<Rightarrow> Inl InstanceFreed
      | Some iptr \<Rightarrow>
          (case wasmModule wasm of
             None \<Rightarrow> Inl MemoryNotAvailable
           | Some w \<Rightarrow>
               (let (outputPtr, w1) = render_granular api iptr (render_granular_args params) w
                in if \<not> has_memory api w1 then Inl MemoryNotAvailable
                   else
                     (let offset = real outputPtr / 4;
                          output = replicate 128 (0::real)
                      in Inr (fold (\<lambda>i output. output[i := f32_get api w1 (offset + real i)])
                                [0..<128] output,
                              wasm\<lparr>wasmModule := Some w1\<rparr>)))))"

text \<open>\<^verbatim>\<open>free\<close>: releases the engine instance once; on a freed wrapper it does nothing.\<close>

definition free ::
  "'w audio_engine \<Rightarrow> GranularInstance \<Rightarrow> 'w wasm_state
     \<Rightarrow> error + (GranularInstance \<times> 'w wasm_state)" where
  "free api inst wasm =
     (case instancePtr inst of
        Some iptr \<Rightarrow>
          Inr (inst\<lparr>instancePtr := None\<rparr>,
               wasm\<lparr>wasmModule := map_option (free_granular_instance api iptr) (wasmModule wasm)\<rparr>)
      | None \<Rightarrow> Inr (inst, wasm))"

section \<open>Offline batch renderer (component GranularControl)\<close>

text \<open>\<^verbatim>\<open>target.set(source, offset)\<close> of a typed array.\<close>

definition typed_array_set :: "sample list \<Rightarrow> sample list \<Rightarrow> nat \<Rightarrow> error + sample list" where
  "typed_array_set target source offset =
     (if offset + length source > length target then Inl RangeError
      else Inr (take offset target @ source @ drop (offset + length source) target))"

text \<open>The body of the render loop; an exception ends the loop.\<close>

definition render_step ::
  "'w audio_engine \<Rightarrow> GranularParams \<Rightarrow> GranularInstance \<Rightarrow> nat
     \<Rightarrow> error + (sample list \<times> 'w wasm_state) \<Rightarrow> error + (sample list \<times> 'w wasm_state)" where
  "render_step api params inst i acc =
     (case acc of
        Inl e \<Rightarrow> Inl e
      | Inr (output, wasm) \<Rightarrow>
          (case renderFrame api params inst wasm of
             Inl e \<Rightarrow> Inl e
           | Inr (frame, wasm') \<Rightarrow>
               (case typed_array_set output frame (i * 128) of
                  Inl e \<Rightarrow> Inl e
                | Inr output' \<Rightarrow> Inr (output', wasm'))))"

definition processOffline ::
  "float_rounding \<Rightarrow> 'w audio_engine \<Rightarrow> 'w wasm_state \<Rightarrow> GranularState
     \<Rightarrow> error + ('w wasm_state \<times> GranularState)" where
  "processOffline fr api wasm st =
     (case granularInstance st of
        None \<Rightarrow> Inr (wasm, st)
      | Some inst \<Rightarrow>
          (case audioBuffer st of
             None \<Rightarrow> Inr (wasm, st)
           | Some buf \<Rightarrow>
               if \<not> isWasmInitialized wasm then Inr (wasm, st)
               else
                 (case audioBufferToFloat32Array fr buf of
                    Inl e \<Rightarrow> Inl e
                  | Inr inputData \<Rightarrow>
                      (let numFrames = nat \<lceil>real (length inputData) / 128\<rceil>;
                           output = replicate (numFrames * 128) (0::real);
                           params = getGranularParams st
                       in case fold (render_step api params inst) [0..<numFrames]
                                 (Inr (output, wasm)) of
                            Inl e \<Rightarrow> Inl e
                          | Inr (output', wasm') \<Rightarrow>
                              (let trimmed = take (length inputData) output'
                               in Inr (wasm', setProcessedBuffer (Some trimmed) st))))))"

text \<open>
  The spec's words, for comparison: \<open>k\<close> calls of \<^verbatim>\<open>renderFrame\<close> one after the other, each
  on the engine state the previous one left, with the frames in the order of the calls.
\<close>

fun render_frames ::
  "'w audio_engine \<Rightarrow> GranularParams \<Rightarrow> GranularInstance \<Rightarrow> 'w wasm_state \<Rightarrow> nat
     \<Rightarrow> error + (sample list list \<times> 'w wasm_state)" where
  "render_frames api ps inst wasm 0 = Inr ([], wasm)"
| "render_frames api ps inst wasm (Suc k) =
     (case render_frames api ps inst wasm k of
        Inl e \<Rightarrow> Inl e
      | Inr (frames, wasm1) \<Rightarrow>
          (case renderFrame api ps inst wasm1 of
             Inl e \<Rightarrow> Inl e
           | Inr (frame, wasm2) \<Rightarrow> Inr (frames @ [frame], wasm2)))"

section \<open>Real-time frame source (AudioWorklet processor)\<close>

record GranularProcessor =
  outputBuffer :: "sample list list"
  params :: GranularParams

text \<open>
  The messages of the port. A \<^verbatim>\<open>processedFrame\<close> message carries \<open>Some frame\<close> when
  \<^verbatim>\<open>data.frame\<close> is a Float32Array, an \<^verbatim>\<open>updateParams\<close> message \<open>Some ps\<close> when
  \<^verbatim>\<open>data.params\<close> is set.
\<close>

datatype message =
    UpdateParams "GranularParams option"
  | ProcessedFrame "sample list option"
  | OtherMessage

definition Object_assign :: "GranularParams \<Rightarrow> GranularParams \<Rightarrow> GranularParams" where
  "Object_assign target source = fold (\<lambda>(k, v). AList.update k v) source target"

fun onmessage :: "GranularProcessor \<Rightarrow> message \<Rightarrow> GranularProcessor" where
  "onmessage p (UpdateParams (Some ps)) = p\<lparr>params := Object_assign (params p) ps\<rparr>"
| "onmessage p (UpdateParams None) = p"
| "onmessage p (ProcessedFrame (Some frame)) = p\<lparr>outputBuffer := outputBuffer p @ [frame]\<rparr>"
| "onmessage p (ProcessedFrame None) = p"
| "onmessage p OtherMessage = p"

text \<open>
  \<^verbatim>\<open>process\<close>: \<open>inputs\<close> and \<open>outputs\<close> are indexed by port, channel and sample. The method
  writes into channel 0 of output 0 and returns \<^verbatim>\<open>true\<close> on every path; the result is the
  processor with the output arrays after the call.
\<close>

definition process ::
  "sample list list list \<Rightarrow> sample list list list \<Rightarrow> GranularProcessor
     \<Rightarrow> GranularProcessor \<times> sample list list list" where
  "process inputs outputs p =
     (case inputs of
        [] \<Rightarrow> (p, outputs)
      | input # _ \<Rightarrow>
     (case outputs of
        [] \<Rightarrow> (p, outputs)
      | output # outputs_rest \<Rightarrow>
     (case input of
        [] \<Rightarrow> (p, outputs)
      | inputChannel # _ \<Rightarrow>
     (case output of
        [] \<Rightarrow> (p, outputs)
      | outputChannel # output_rest \<Rightarrow>
          (let frameLength = length outputChannel
           in case outputBuffer p of
                processedFrame # queue_rest \<Rightarrow>
                  (let copyLength = min frameLength (length processedFrame);
                       out1 = fold (\<lambda>i out. out[i := processedFrame ! i])
                                [0..<copyLength] outputChannel;
                       out2 = fold (\<lambda>i out. out[i := 0]) [copyLength..<frameLength] out1
                   in (p\<lparr>outputBuffer := queue_rest\<rparr>, (out2 # output_rest) # outputs_rest))
              | [] \<Rightarrow>
                  (let out1 = fold (\<lambda>i out. out[i :=
                                       (if i < length inputChannel then inputChannel ! i else 0)])
                                [0..<frameLength] outputChannel
                   in (p, (out1 # output_rest) # outputs_rest)))))))"

text \<open>The life of a processor: port messages and audio callbacks, in the order they occur.\<close>

datatype worklet_event =
    Message message
  | Callback "sample list list list" "sample list list list"

fun worklet_step :: "GranularProcessor \<Rightarrow> worklet_event \<Rightarrow> GranularProcessor" where
  "worklet_step p (Message m) = onmessage p m"
| "worklet_step p (Callback inputs outputs) = fst (process inputs outputs p)"

text \<open>The frames a step takes off the front of the queue.\<close>

definition consumed_by :: "GranularProcessor \<Rightarrow> GranularProcessor \<Rightarrow> sample list list" where
  "consumed_by p p' =
     take (length (outputBuffer p) - length (outputBuffer p')) (outputBuffer p)"

fun enqueued :: "worklet_event list \<Rightarrow> sample list list" where
  "enqueued [] = []"
| "enqueued (Message (ProcessedFrame (Some frame)) # evs) = frame # enqueued evs"
| "enqueued (_ # evs) = enqueued evs"

fun worklet_run :: "GranularProcessor \<Rightarrow> worklet_event list \<Rightarrow> GranularProcessor" where
  "worklet_run p [] = p"
| "worklet_run p (ev # evs) = worklet_run (worklet_step p ev) evs"

fun delivered :: "GranularProcessor \<Rightarrow> worklet_event list \<Rightarrow> sample list list" where
  "delivered p [] = []"
| "delivered p (Message m # evs) = delivered (onmessage p m) evs"
| "delivered p (Callback inputs outputs # evs) =
     consumed_by p (fst (process inputs outputs p))
       @ delivered (fst (process inputs outputs p)) evs"

text \<open>A frame cut or zero-padded to the length of the output channel.\<close>

definition fit_frame :: "nat \<Rightarrow> sample list \<Rightarrow> sample list" where
  "fit_frame n frame = take n frame @ replicate (n - length frame) 0"

section \<open>Concrete inputs\<close>

text \<open>
  An in-memory engine for concrete runs: its state counts the render calls made so far,
  and every element of its memory reads as that count.
\<close>

definition counting_engine :: "nat audio_engine" where
  "counting_engine =
     \<lparr> create_granular_instance = (\<lambda>w. (4, w)),
       get_granular_waveform_ptr = (\<lambda>iptr len w. (0, w)),
       render_granular = (\<lambda>iptr args w. (0, Suc w)),
       free_granular_instance = (\<lambda>iptr w. w),
       has_memory = (\<lambda>w. True),
       f32_get = (\<lambda>w k. real w),
       f32_set = (\<lambda>k v w. w) \<rparr>"

definition ready_wasm :: "nat wasm_state" where
  "ready_wasm = \<lparr> wasmInitialized = True, wasmModule = Some 0 \<rparr>"

definition silent_buffer :: "nat \<Rightarrow> AudioBuffer" where
  "silent_buffer n = \<lparr> ab_length = n, sampleRate = 44100, channelData = [replicate n 0] \<rparr>"

text \<open>The store and the waveform view right after a buffer of \<open>n\<close> samples was loaded.\<close>

definition loaded_store :: "nat \<Rightarrow> GranularState" where
  "loaded_store n = setAudioBuffer (Some (silent_buffer n)) initialState"

definition loaded_view :: "nat \<Rightarrow> Waveform" where
  "loaded_view n = \<lparr> dragState = DragNone, isDragging = False, store = loaded_store n \<rparr>"

text \<open>The store once the engine instance was created and a buffer of \<open>n\<close> samples loaded.\<close>

definition ready_store :: "nat \<Rightarrow> GranularState" where
  "ready_store n = (loaded_store n)\<lparr>granularInstance := Some \<lparr>instancePtr = Some 4\<rparr>\<rparr>"

text \<open>
  A processor with an empty frame queue and the parameters it is constructed with (the same
  values as the initial store).
\<close>

definition idle_processor :: GranularProcessor where
  "idle_processor =
     \<lparr> outputBuffer = [],
       params = getGranularParams initialState \<rparr>"

text \<open>
  The rounding of values that both floating-point formats represent exactly: it returns its
  argument. It stands for the two roundings in the concrete runs below, whose samples, sums
  and quotients are small integers.
\<close>

definition exact_values :: float_rounding where
  "exact_values = \<lparr> to_double = (\<lambda>x. x), to_single = (\<lambda>x. x) \<rparr>"

text \<open>A buffer of three channels with one sample each.\<close>

definition three_channel_buffer :: AudioBuffer where
  "three_channel_buffer = \<lparr> ab_length = 1, sampleRate = 44100, channelData = [[0], [0], [3]] \<rparr>"

text \<open>The operations of an instance wrapper, and whether one of them raises.\<close>

datatype operation =
    OpSetWaveform "sample list"
  | OpRenderFrame GranularParams
  | OpFree

fun raises ::
  "'w audio_engine \<Rightarrow> operation \<Rightarrow> GranularInstance \<Rightarrow> 'w wasm_state \<Rightarrow> error option" where
  "raises api (OpSetWaveform waveform) inst wasm =
     (case setWaveform api waveform inst wasm of Inl e \<Rightarrow> Some e | Inr _ \<Rightarrow> None)"
| "raises api (OpRenderFrame ps) inst wasm =
     (case renderFrame api ps inst wasm of Inl e \<Rightarrow> Some e | Inr _ \<Rightarrow> None)"
| "raises api OpFree inst wasm =
     (case free api inst wasm of Inl e \<Rightarrow> Some e | Inr _ \<Rightarrow> None)"

section \<open>Helper lemmas\<close>

subsection \<open>Counting loops that fill an array\<close>

lemma fold_list_update:
  "a \<le> b \<Longrightarrow> b \<le> length out \<Longrightarrow>
     fold (\<lambda>i out. out[i := f i]) [a..<b] out = take a out @ map f [a..<b] @ drop b out"
proof (induction b)
  case 0
  then show ?case by simp
next
  case (Suc b)
  show ?case
  proof (cases "a = Suc b")
    case True
    then show ?thesis by simp
  next
    case False
    with Suc.prems have ab: "a \<le> b" and bl: "b < length out" by simp_all
    have IH: "fold (\<lambda>i out. out[i := f i]) [a..<b] out = take a out @ map f [a..<b] @ drop b out"
      using Suc.IH ab bl by simp
    have len: "length (take a out @ map f [a..<b]) = b" using ab bl by simp
    have d: "drop b out = out ! b # drop (Suc b) out"
      using bl by (simp add: Cons_nth_drop_Suc)
    have "(take a out @ map f [a..<b] @ drop b out)[b := f b]
            = ((take a out @ map f [a..<b]) @ out ! b # drop (Suc b) out)
                [length (take a out @ map f [a..<b]) := f b]"
      using len d by simp
    also have "\<dots> = (take a out @ map f [a..<b]) @ f b # drop (Suc b) out"
      by (rule list_update_length)
    finally show ?thesis using ab IH by simp
  qed
qed

lemma fold_list_update_length:
  "length (fold (\<lambda>i out. out[i := f i]) xs out) = length out"
  by (induction xs arbitrary: out) simp_all

lemma fold_fill:
  "fold (\<lambda>i out. out[i := f i]) [0..<n] (replicate n z) = map f [0..<n]"
  using fold_list_update [of 0 n "replicate n z" f] by simp

subsection \<open>The mono mixdown\<close>

lemma mixdown_closed_form:
  assumes "wf_AudioBuffer b"
  shows "audioBufferToFloat32Array fr b =
           Inr (if numberOfChannels b = 1 then channelData b ! 0
                else map (\<lambda>i. to_single fr
                                 (to_double fr
                                    (to_double fr (channelData b ! 0 ! i + channelData b ! 1 ! i)
                                       / 2)))
                       [0..<ab_length b])"
proof -
  from assms have ne: "channelData b \<noteq> []"
    and len: "\<And>c. c \<in> set (channelData b) \<Longrightarrow> length c = ab_length b"
    by (auto simp: wf_AudioBuffer_def list_all_iff)
  have n0: "0 < numberOfChannels b" using ne by (simp add: numberOfChannels_def)
  have l0: "length (channelData b ! 0) = ab_length b"
    using ne len by (simp add: nth_mem)
  show ?thesis
  proof (cases "numberOfChannels b = 1")
    case True
    then show ?thesis by (simp add: audioBufferToFloat32Array_def getChannelData_def)
  next
    case False
    with n0 have "1 < numberOfChannels b" by simp
    then show ?thesis using False l0
      by (simp add: audioBufferToFloat32Array_def getChannelData_def Let_def fold_fill)
  qed
qed

lemma mixdown_length:
  assumes "wf_AudioBuffer b"
  shows "\<exists>mono. audioBufferToFloat32Array fr b = Inr mono \<and> length mono = ab_length b"
proof -
  from assms have "channelData b \<noteq> []"
    and "\<And>c. c \<in> set (channelData b) \<Longrightarrow> length c = ab_length b"
    by (auto simp: wf_AudioBuffer_def list_all_iff)
  then have "length (channelData b ! 0) = ab_length b" by (simp add: nth_mem)
  then show ?thesis using mixdown_closed_form [OF assms, of fr] by simp
qed

subsection \<open>The selection invariant under pointer moves\<close>

text \<open>
  Every pointer-move, pointer-up and pointer-leave keeps the selection invariant, whatever
  sample the pixel mapping returns.
\<close>

lemma handleMouseMove_selection_ok: "selection_ok n (store w) \<Longrightarrow> selection_ok n (store (handleMouseMove n x w))"
  by (auto simp: handleMouseMove_def selection_ok_def setSelectionStartSampleIx_def setSelectionEndSampleIx_def Let_def
       split: DragState.splits)

lemma handleMouseUp_store: "store (handleMouseUp w) = store w" "store (handleMouseLeave w) = store w"
  by (simp_all add: handleMouseUp_def handleMouseLeave_def)

subsection \<open>The render loop\<close>

lemma renderFrame_live:
  assumes "instancePtr inst = Some iptr" "wasmModule wasm = Some w" "\<And>w. has_memory api w"
  shows "\<exists>frame w'. renderFrame api ps inst wasm = Inr (frame, wasm\<lparr>wasmModule := Some w'\<rparr>)
           \<and> length frame = 128"
  using assms
  by (auto simp: renderFrame_def Let_def fold_list_update_length simp del: upt_rec_numeral
        split: prod.splits)

lemma render_loop:
  assumes live: "instancePtr inst = Some iptr" "wasmModule wasm = Some w" "\<And>w. has_memory api w"
    and out: "length output = n * 128"
  shows "k \<le> n \<Longrightarrow>
     \<exists>frames w'. render_frames api ps inst wasm k = Inr (frames, wasm\<lparr>wasmModule := Some w'\<rparr>)
        \<and> length frames = k \<and> length (concat frames) = k * 128
        \<and> fold (render_step api ps inst) [0..<k] (Inr (output, wasm))
            = Inr (concat frames @ drop (k * 128) output, wasm\<lparr>wasmModule := Some w'\<rparr>)"
proof (induction k)
  case 0
  have "wasm\<lparr>wasmModule := Some w\<rparr> = wasm" using live(2) by simp
  then have "render_frames api ps inst wasm 0 = Inr ([], wasm\<lparr>wasmModule := Some w\<rparr>)
      \<and> fold (render_step api ps inst) [0..<0] (Inr (output, wasm))
            = Inr (concat [] @ drop (0 * 128) output, wasm\<lparr>wasmModule := Some w\<rparr>)"
    by simp
  then show ?case by fastforce
next
  case (Suc k)
  then obtain frames w1 where
    rf: "render_frames api ps inst wasm k = Inr (frames, wasm\<lparr>wasmModule := Some w1\<rparr>)"
    and lf: "length frames = k" and lc: "length (concat frames) = k * 128"
    and fo: "fold (render_step api ps inst) [0..<k] (Inr (output, wasm))
               = Inr (concat frames @ drop (k * 128) output, wasm\<lparr>wasmModule := Some w1\<rparr>)"
    by auto
  let ?wasm1 = "wasm\<lparr>wasmModule := Some w1\<rparr>"
  have "wasmModule ?wasm1 = Some w1" by simp
  from renderFrame_live [OF live(1) this live(3), of ps]
  obtain frame w2 where
    r: "renderFrame api ps inst ?wasm1 = Inr (frame, wasm\<lparr>wasmModule := Some w2\<rparr>)"
    and l: "length frame = 128" by auto
  let ?cur = "concat frames @ drop (k * 128) output"
  have kn: "k * 128 + 128 \<le> n * 128" using Suc.prems by simp
  have lcur: "length ?cur = n * 128" using lc out kn by simp
  have set: "typed_array_set ?cur frame (k * 128)
               = Inr (concat (frames @ [frame]) @ drop (Suc k * 128) output)"
    using lc l lcur kn by (simp add: typed_array_set_def add.commute)
  have "fold (render_step api ps inst) [0..<Suc k] (Inr (output, wasm))
          = render_step api ps inst k (Inr (?cur, ?wasm1))"
    using fo by simp
  also have "\<dots> = Inr (concat (frames @ [frame]) @ drop (Suc k * 128) output,
                       wasm\<lparr>wasmModule := Some w2\<rparr>)"
    using r set by (simp add: render_step_def)
  finally have step: "fold (render_step api ps inst) [0..<Suc k] (Inr (output, wasm))
      = Inr (concat (frames @ [frame]) @ drop (Suc k * 128) output, wasm\<lparr>wasmModule := Some w2\<rparr>)" .
  have "render_frames api ps inst wasm (Suc k) = Inr (frames @ [frame], wasm\<lparr>wasmModule := Some w2\<rparr>)"
    using rf r by simp
  moreover have "length (frames @ [frame]) = Suc k" using lf by simp
  moreover have "length (concat (frames @ [frame])) = Suc k * 128" using lc l by simp
  ultimately show ?case using step by blast
qed

lemma numFrames_covers: "n \<le> nat \<lceil>real n / 128\<rceil> * 128"
proof -
  have "real n / 128 \<le> real_of_int \<lceil>real n / 128\<rceil>" by (rule le_of_int_ceiling)
  then have "real n \<le> real_of_int \<lceil>real n / 128\<rceil> * 128"
    by linarith
  then have "int n \<le> \<lceil>real n / 128\<rceil> * 128" by linarith
  then have "nat (int n) \<le> nat (\<lceil>real n / 128\<rceil> * 128)" by (rule nat_mono)
  then show ?thesis by (simp add: nat_mult_distrib)
qed

subsection \<open>The counting engine\<close>

lemma counting_engine_renderFrame:
  "renderFrame counting_engine ps \<lparr>instancePtr = Some 4\<rparr>
       \<lparr>wasmInitialized = True, wasmModule = Some k\<rparr>
     = Inr (replicate 128 (real (Suc k)), \<lparr>wasmInitialized = True, wasmModule = Some (Suc k)\<rparr>)"
proof -
  have "fold (\<lambda>i output. output[i := real (Suc k)]) [0..<128] (replicate 128 (0::real))
          = map (\<lambda>i. real (Suc k)) [0..<128]"
    by (rule fold_fill)
  also have "\<dots> = replicate 128 (real (Suc k))"
    by (simp only: map_replicate_const length_upt diff_zero)
  finally show ?thesis
    by (simp add: renderFrame_def counting_engine_def Let_def del: upt_rec_numeral)
qed

lemma counting_engine_render_frames:
  "render_frames counting_engine ps \<lparr>instancePtr = Some 4\<rparr> ready_wasm n
     = Inr (map (\<lambda>j. replicate 128 (real (Suc j))) [0..<n],
            \<lparr>wasmInitialized = True, wasmModule = Some n\<rparr>)"
  by (induction n) (simp_all add: ready_wasm_def counting_engine_renderFrame)

subsection \<open>The audio callback\<close>

lemma passthrough_same_length:
  "length ic = n \<Longrightarrow> map (\<lambda>i. if i < length ic then ic ! i else 0) [0..<n] = (ic :: real list)"
  by (auto intro: nth_equalityI)

lemma map_nth_take:
  "k \<le> length xs \<Longrightarrow> map (\<lambda>i. xs ! i) [0..<k] = take k xs"
  by (auto intro: nth_equalityI)

lemma process_length:
  "map (map length) (snd (process inputs outputs p)) = map (map length) outputs"
  by (simp add: process_def Let_def fold_list_update_length split: list.splits)

lemma process_empty_queue:
  assumes "outputBuffer p = []"
  shows "process ((ic # ir) # isr) ((oc # orest) # osr) p
           = (p, (map (\<lambda>i. if i < length ic then ic ! i else 0) [0..<length oc] # orest) # osr)"
proof -
  have "fold (\<lambda>i out. out[i := (if i < length ic then ic ! i else 0)]) [0..<length oc] oc
          = map (\<lambda>i. if i < length ic then ic ! i else 0) [0..<length oc]"
    using fold_list_update [of 0 "length oc" oc "\<lambda>i. if i < length ic then ic ! i else 0"]
    by simp
  then show ?thesis using assms by (simp add: process_def Let_def)
qed

lemma process_queued_frame:
  assumes "outputBuffer p = frame # queue"
  shows "process ((ic # ir) # isr) ((oc # orest) # osr) p
           = (p\<lparr>outputBuffer := queue\<rparr>, (fit_frame (length oc) frame # orest) # osr)"
proof -
  let ?n = "length oc"
  let ?c = "min ?n (length frame)"
  let ?out1 = "fold (\<lambda>i out. out[i := frame ! i]) [0..<?c] oc"
  have o1: "?out1 = take ?c frame @ drop ?c oc"
    using fold_list_update [of 0 ?c oc "\<lambda>i. frame ! i"] by (simp add: map_nth_take)
  have l1: "length ?out1 = ?n" by (rule fold_list_update_length)
  have "fold (\<lambda>i out. out[i := 0]) [?c..<?n] ?out1
          = take ?c ?out1 @ map (\<lambda>i. 0) [?c..<?n] @ drop ?n ?out1"
    using l1 by (intro fold_list_update) simp_all
  also have "\<dots> = take ?c frame @ replicate (?n - ?c) 0"
    using l1 by (simp add: o1 map_replicate_const)
  also have "\<dots> = fit_frame ?n frame"
    by (simp add: fit_frame_def min_def)
  finally show ?thesis using assms by (simp add: process_def Let_def)
qed

lemma process_queue_cases:
  "outputBuffer (fst (process inputs outputs p)) = outputBuffer p
   \<or> (\<exists>frame. outputBuffer p = frame # outputBuffer (fst (process inputs outputs p)))"
  by (simp add: process_def Let_def split: list.splits)

lemma consumed_by_process:
  "outputBuffer p = consumed_by p (fst (process inputs outputs p))
                      @ outputBuffer (fst (process inputs outputs p))
   \<and> length (consumed_by p (fst (process inputs outputs p))) \<le> 1"
  using process_queue_cases [of inputs outputs p]
  by (auto simp: consumed_by_def)

lemma queue_conservation:
  "outputBuffer p @ enqueued evs = delivered p evs @ outputBuffer (worklet_run p evs)"
proof (induction evs arbitrary: p)
  case Nil
  show ?case by simp
next
  case (Cons ev evs)
  show ?case
  proof (cases ev)
    case (Message m)
    show ?thesis
    proof (cases m)
      case (UpdateParams ps)
      then show ?thesis using Message Cons.IH [of "onmessage p m"]
        by (cases ps) simp_all
    next
      case (ProcessedFrame f)
      then show ?thesis using Message Cons.IH [of "onmessage p m"]
        by (cases f) simp_all
    next
      case OtherMessage
      then show ?thesis using Message Cons.IH [of "onmessage p m"] by simp
    qed
  next
    case (Callback inputs outputs)
    let ?p' = "fst (process inputs outputs p)"
    have "outputBuffer p @ enqueued (ev # evs)
            = consumed_by p ?p' @ outputBuffer ?p' @ enqueued evs"
    proof -
      have "enqueued (ev # evs) = enqueued evs" using Callback by simp
      moreover have "outputBuffer p = consumed_by p ?p' @ outputBuffer ?p'"
        using consumed_by_process [of p inputs outputs] by blast
      ultimately show ?thesis by (metis append.assoc)
    qed
    then show ?thesis using Callback Cons.IH [of ?p'] by simp
  qed
qed

section \<open>The store\<close>

text \<open>
  C9: whenever a new (non-null) waveform buffer of length \<open>len\<close> is loaded into the store,
  the selection is reset to the full new range: \<open>selectionStartSampleIx\<close> becomes 0 and
  \<open>selectionEndSampleIx\<close> becomes \<open>len\<close>.
\<close>

theorem setAudioBuffer_resets_selection:
  "audioBuffer (setAudioBuffer (Some b) st) = Some b
   \<and> selectionStartSampleIx (setAudioBuffer (Some b) st) = 0
   \<and> selectionEndSampleIx (setAudioBuffer (Some b) st) = int (ab_length b)"
  by (simp add: setAudioBuffer_def)



section \<open>The selection editor\<close>

text \<open>
  C6: a pointer-move while dragging the start marker sets the selection start to
  \<open>min pointerSample (selectionEnd - 1)\<close>, clamped to be at least 0, and leaves the selection
  end as it is. With the selection [100, 900], dragging the start marker to sample 950 gives
  the start 899.
\<close>

theorem start_marker_drag_clamps:
  assumes "isDragging w" and "dragState w = StartMarker"
  shows "selectionStartSampleIx (store (handleMouseMove n x w))
           = max 0 (min (pixelToSample n x) (selectionEndSampleIx (store w) - 1))
         \<and> selectionEndSampleIx (store (handleMouseMove n x w)) = selectionEndSampleIx (store w)"
  using assms
  by (simp add: handleMouseMove_def setSelectionStartSampleIx_def Let_def)

theorem start_marker_drag_clamps_witness:
  "pixelToSample 1000 1330 = 950
   \<and> selectionStartSampleIx (store (handleMouseMove 1000 1330
        \<lparr>dragState = StartMarker, isDragging = True,
         store = (loaded_store 1000)\<lparr>selectionStartSampleIx := 100,
                                     selectionEndSampleIx := 900\<rparr>\<rparr>)) = 899
   \<and> selectionEndSampleIx (store (handleMouseMove 1000 1330
        \<lparr>dragState = StartMarker, isDragging = True,
         store = (loaded_store 1000)\<lparr>selectionStartSampleIx := 100,
                                     selectionEndSampleIx := 900\<rparr>\<rparr>)) = 900"
  using start_marker_drag_clamps
    [of "\<lparr>dragState = StartMarker, isDragging = True,
          store = (loaded_store 1000)\<lparr>selectionStartSampleIx := 100,
                                      selectionEndSampleIx := 900\<rparr>\<rparr>" 1000 1330]
  by (simp add: pixelToSample_def width_def)

text \<open>
  C2: a pointer-move while dragging the whole range should keep the selection width; for the
  selection [0, 200] on a buffer of 1000 samples and a proposed start of -50 the selection
  should stay [0, 200]. The handler instead adds the overshoot to the old end: on a freshly
  loaded buffer of 1000 samples, dragging the end marker to sample 200, grabbing the range at
  sample 100 and moving the pointer to sample 50 leaves the selection [0, 250].
\<close>

theorem range_drag_past_left_edge_widens_selection:
  "handle_events 1000 (loaded_view 1000)
       [PointerDown 1399, PointerMove 280, PointerUp, PointerDown 140]
     = \<lparr>dragState = Selection 100, isDragging = True,
        store = (loaded_store 1000)\<lparr>selectionStartSampleIx := 0,
                                    selectionEndSampleIx := 200\<rparr>\<rparr>
   \<and> pixelToSample 1000 70 - 100 = - 50
   \<and> handle_events 1000 (loaded_view 1000)
       [PointerDown 1399, PointerMove 280, PointerUp, PointerDown 140, PointerMove 70]
     = \<lparr>dragState = Selection 100, isDragging = True,
        store = (loaded_store 1000)\<lparr>selectionStartSampleIx := 0,
                                    selectionEndSampleIx := 250\<rparr>\<rparr>"
  by (simp add: handle_events_def loaded_view_def loaded_store_def silent_buffer_def
        handleMouseDown_def handleMouseMove_def handleMouseUp_def getDragType_def
        sampleToPixel_def pixelToSample_def width_def MARKER_HIT_RADIUS_def
        SELECTION_HIT_MARGIN_def setAudioBuffer_def initialState_def
        setSelectionStartSampleIx_def setSelectionEndSampleIx_def Let_def)

text \<open>
  C3: after every pointer event the selection should satisfy
  \<open>0 \<le> selectionStart < selectionEnd \<le> waveformLength\<close>. A click outside the selection
  whose start and end markers share a pixel breaks it: on a freshly loaded buffer of 2800
  samples, after the start marker was dragged to sample 1400 and the end marker to sample
  1401, a click at pixel 0 moves the end to sample 0, below the start.
\<close>

theorem click_outside_narrow_selection_inverts_it:
  "selection_ok 2800 (store (handle_events 2800 (loaded_view 2800)
       [PointerDown 0, PointerMove 700, PointerUp, PointerDown 1399, PointerMove 0, PointerUp]))
   \<and> handle_events 2800 (loaded_view 2800)
       [PointerDown 0, PointerMove 700, PointerUp, PointerDown 1399, PointerMove 0, PointerUp,
        PointerDown 0]
     = \<lparr>dragState = DragNone, isDragging = False,
        store = (loaded_store 2800)\<lparr>selectionStartSampleIx := 1400,
                                    selectionEndSampleIx := 0\<rparr>\<rparr>
   \<and> \<not> selection_ok 2800 (store (handle_events 2800 (loaded_view 2800)
       [PointerDown 0, PointerMove 700, PointerUp, PointerDown 1399, PointerMove 0, PointerUp,
        PointerDown 0]))"
  by (simp add: handle_events_def loaded_view_def loaded_store_def silent_buffer_def
        handleMouseDown_def handleMouseMove_def handleMouseUp_def getDragType_def
        sampleToPixel_def pixelToSample_def width_def MARKER_HIT_RADIUS_def
        SELECTION_HIT_MARGIN_def setAudioBuffer_def initialState_def selection_ok_def
        setSelectionStartSampleIx_def setSelectionEndSampleIx_def Let_def)

section \<open>The mono mixdown\<close>

text \<open>
  C8, as amended: for every well-formed decoded buffer the mono waveform is channel 0
  unchanged when there is one channel, and otherwise output sample \<open>i\<close> is the average of
  sample \<open>i\<close> of channels 0 and 1, computed in double precision and rounded to single
  precision by the store. So for one channel it is the average over all channels, for two
  channels it is that average as floating-point arithmetic computes and stores it, and
  channels beyond the second are ignored.
\<close>

theorem mixdown_averages_first_two_channels:
  assumes "wf_AudioBuffer b"
  shows "audioBufferToFloat32Array fr b =
           Inr (if numberOfChannels b = 1 then channelData b ! 0
                else map (\<lambda>i. to_single fr
                                 (to_double fr
                                    (to_double fr (channelData b ! 0 ! i + channelData b ! 1 ! i)
                                       / 2)))
                       [0..<ab_length b])
         \<and> (numberOfChannels b = 1 \<longrightarrow>
              audioBufferToFloat32Array fr b = Inr (map (channel_average b) [0..<ab_length b]))
         \<and> (numberOfChannels b = 2 \<longrightarrow>
              audioBufferToFloat32Array fr b
                = Inr (map (float_channel_average fr b) [0..<ab_length b]))"
proof -
  from assms have ne: "channelData b \<noteq> []"
    and len: "\<And>c. c \<in> set (channelData b) \<Longrightarrow> length c = ab_length b"
    by (auto simp: wf_AudioBuffer_def list_all_iff)
  note closed = mixdown_closed_form [OF assms, of fr]
  have one: "audioBufferToFloat32Array fr b = Inr (map (channel_average b) [0..<ab_length b])"
    if n1: "numberOfChannels b = 1"
  proof -
    from n1 obtain l where cd: "channelData b = [l]"
      by (cases "channelData b") (simp_all add: numberOfChannels_def)
    have ll: "length l = ab_length b" using len cd by simp
    have "map (channel_average b) [0..<ab_length b] = map (\<lambda>i. l ! i) [0..<length l]"
      using cd ll by (simp add: channel_average_def numberOfChannels_def)
    also have "\<dots> = l" by (rule map_nth)
    finally show ?thesis using closed cd by (simp add: numberOfChannels_def)
  qed
  have two: "audioBufferToFloat32Array fr b
               = Inr (map (float_channel_average fr b) [0..<ab_length b])"
    if n2: "numberOfChannels b = 2"
  proof -
    from n2 obtain l r where cd: "channelData b = [l, r]"
      by (cases "channelData b"; cases "tl (channelData b)")
         (auto simp: numberOfChannels_def)
    show ?thesis using closed cd
      by (simp add: numberOfChannels_def float_channel_average_def)
  qed
  show ?thesis using closed one two by blast
qed

theorem mixdown_averages_first_two_channels_witness:
  "wf_AudioBuffer \<lparr>ab_length = 2, sampleRate = 44100, channelData = [[1, 3], [3, 5]]\<rparr>
   \<and> audioBufferToFloat32Array exact_values
        \<lparr>ab_length = 2, sampleRate = 44100, channelData = [[1, 3], [3, 5]]\<rparr>
       = Inr [2, 4]"
  using mixdown_averages_first_two_channels
    [of "\<lparr>ab_length = 2, sampleRate = 44100, channelData = [[1, 3], [3, 5]]\<rparr>" exact_values]
  by (simp add: wf_AudioBuffer_def numberOfChannels_def exact_values_def upt_rec)

text \<open>
  With three channels the output is not the average over all channels: the third channel
  does not count. The samples 0 and 3, their sums and their averages are exact in both
  floating-point formats.
\<close>

theorem mixdown_three_channels_counterexample:
  "wf_AudioBuffer three_channel_buffer
   \<and> audioBufferToFloat32Array exact_values three_channel_buffer = Inr [0]
   \<and> channel_average three_channel_buffer 0 = 1
   \<and> float_channel_average exact_values three_channel_buffer 0 = 1"
  by (simp add: three_channel_buffer_def wf_AudioBuffer_def audioBufferToFloat32Array_def
        getChannelData_def numberOfChannels_def channel_average_def
        float_channel_average_def exact_values_def)

section \<open>The engine binding\<close>

text \<open>
  C5, as amended: after \<open>free\<close> was called on an instance wrapper, every later waveform upload
  and every later frame render on it fails with the error "Granular instance has been freed";
  a later \<open>free\<close> raises nothing and changes nothing.
\<close>

theorem freed_instance_rejects_upload_and_render:
  "free api inst wasm = Inr (inst', wasm') \<Longrightarrow>
     instancePtr inst' = None
     \<and> setWaveform api waveform inst' wasm2 = Inl InstanceFreed
     \<and> renderFrame api ps inst' wasm2 = Inl InstanceFreed
     \<and> free api inst' wasm2 = Inr (inst', wasm2)"
  by (auto simp: free_def setWaveform_def renderFrame_def split: option.splits)

theorem freed_instance_rejects_upload_and_render_witness:
  "free counting_engine \<lparr>instancePtr = Some 4\<rparr> ready_wasm
     = Inr (\<lparr>instancePtr = None\<rparr>, ready_wasm)
   \<and> setWaveform counting_engine [1, 2] \<lparr>instancePtr = None\<rparr> ready_wasm = Inl InstanceFreed
   \<and> renderFrame counting_engine (getGranularParams initialState) \<lparr>instancePtr = None\<rparr>
        ready_wasm = Inl InstanceFreed
   \<and> free counting_engine \<lparr>instancePtr = None\<rparr> ready_wasm
       = Inr (\<lparr>instancePtr = None\<rparr>, ready_wasm)"
proof -
  have f: "free counting_engine \<lparr>instancePtr = Some 4\<rparr> ready_wasm
             = Inr (\<lparr>instancePtr = None\<rparr>, ready_wasm)"
    by (simp add: free_def counting_engine_def ready_wasm_def)
  show ?thesis
    using f freed_instance_rejects_upload_and_render
              [OF f, of "[1, 2]" ready_wasm "getGranularParams initialState"]
    by simp
qed

text \<open>A second \<open>free\<close> raises no error and leaves the wrapper and the module as they were.\<close>

theorem second_free_is_silent_counterexample:
  "free counting_engine \<lparr>instancePtr = Some 4\<rparr> ready_wasm
     = Inr (\<lparr>instancePtr = None\<rparr>, ready_wasm)
   \<and> raises counting_engine OpFree \<lparr>instancePtr = None\<rparr> ready_wasm = None
   \<and> free counting_engine \<lparr>instancePtr = None\<rparr> ready_wasm
       = Inr (\<lparr>instancePtr = None\<rparr>, ready_wasm)"
  by (simp add: free_def counting_engine_def ready_wasm_def)

section \<open>The offline batch renderer\<close>

text \<open>
  C1: for every loaded waveform buffer of length \<open>N\<close> and every parameter snapshot, with a live
  instance of an initialised engine, the offline renderer computes
  \<open>numFrames = \<lceil>N / 128\<rceil>\<close>, calls \<open>renderFrame\<close> exactly \<open>numFrames\<close> times in order, each on
  the engine state the previous call left, concatenates the frames into a buffer of length
  \<open>numFrames * 128\<close> and trims it to \<open>N\<close> samples: the published processed buffer has length
  exactly \<open>N\<close>.
\<close>

theorem processOffline_renders_and_trims:
  assumes inst: "granularInstance st = Some inst" "instancePtr inst = Some iptr"
    and buf: "audioBuffer st = Some buf" "wf_AudioBuffer buf"
    and wasm: "wasmInitialized wasm" "wasmModule wasm = Some w" "\<And>w. has_memory api w"
  shows "\<exists>frames wasm'.
           render_frames api (getGranularParams st) inst wasm (nat \<lceil>real (ab_length buf) / 128\<rceil>)
             = Inr (frames, wasm')
         \<and> length frames = nat \<lceil>real (ab_length buf) / 128\<rceil>
         \<and> length (concat frames) = nat \<lceil>real (ab_length buf) / 128\<rceil> * 128
         \<and> processOffline fr api wasm st
             = Inr (wasm', st\<lparr>processedBuffer := Some (take (ab_length buf) (concat frames))\<rparr>)
         \<and> length (take (ab_length buf) (concat frames)) = ab_length buf"
proof -
  let ?N = "ab_length buf"
  let ?k = "nat \<lceil>real ?N / 128\<rceil>"
  let ?ps = "getGranularParams st"
  from mixdown_length [OF buf(2), of fr] obtain inputData where
    mono: "audioBufferToFloat32Array fr buf = Inr inputData" and lm: "length inputData = ?N" by auto
  have "length (replicate (?k * 128) (0::real)) = ?k * 128" by simp
  from render_loop [OF inst(2) wasm(2) wasm(3) this, of ?k ?ps]
  obtain frames w' where
    rf: "render_frames api ?ps inst wasm ?k = Inr (frames, wasm\<lparr>wasmModule := Some w'\<rparr>)"
    and lf: "length frames = ?k" and lc: "length (concat frames) = ?k * 128"
    and fo: "fold (render_step api ?ps inst) [0..<?k] (Inr (replicate (?k * 128) 0, wasm))
               = Inr (concat frames @ drop (?k * 128) (replicate (?k * 128) 0),
                      wasm\<lparr>wasmModule := Some w'\<rparr>)"
    by auto
  have fo': "fold (render_step api ?ps inst) [0..<?k] (Inr (replicate (?k * 128) 0, wasm))
               = Inr (concat frames, wasm\<lparr>wasmModule := Some w'\<rparr>)"
    using fo by simp
  have po: "processOffline fr api wasm st
              = Inr (wasm\<lparr>wasmModule := Some w'\<rparr>,
                     st\<lparr>processedBuffer := Some (take ?N (concat frames))\<rparr>)"
    using inst(1) buf(1) wasm(1) mono lm fo'
    by (simp add: processOffline_def isWasmInitialized_def Let_def setProcessedBuffer_def)
  have "length (take ?N (concat frames)) = ?N"
    using lc numFrames_covers [of ?N] by simp
  with rf lf lc po show ?thesis by blast
qed

theorem processOffline_renders_and_trims_witness:
  "processOffline exact_values counting_engine ready_wasm (ready_store 1000)
     = Inr (\<lparr>wasmInitialized = True, wasmModule = Some 8\<rparr>,
            (ready_store 1000)\<lparr>processedBuffer :=
               Some (take 1000 (concat (map (\<lambda>j. replicate 128 (real (Suc j))) [0..<8])))\<rparr>)
   \<and> length (take 1000 (concat (map (\<lambda>j. replicate 128 (real (Suc j))) [0..<8]))) = 1000"
proof -
  have a: "granularInstance (ready_store 1000) = Some \<lparr>instancePtr = Some 4\<rparr>"
    by (simp add: ready_store_def)
  have b: "instancePtr \<lparr>instancePtr = Some 4\<rparr> = Some 4" by simp
  have c: "audioBuffer (ready_store 1000) = Some (silent_buffer 1000)"
    by (simp add: ready_store_def loaded_store_def setAudioBuffer_def)
  have d: "wf_AudioBuffer (silent_buffer 1000)"
    by (simp add: wf_AudioBuffer_def silent_buffer_def)
  have e: "wasmInitialized ready_wasm" "wasmModule ready_wasm = Some 0"
    by (simp_all add: ready_wasm_def)
  have f: "\<And>w. has_memory counting_engine w" by (simp add: counting_engine_def)
  have g: "nat \<lceil>real (1000::nat) / 128\<rceil> = 8" by simp
  have h: "ab_length (silent_buffer 1000) = 1000" by (simp add: silent_buffer_def)
  from processOffline_renders_and_trims [OF a b c d e f, of exact_values]
  obtain frames wasm' where
    r: "render_frames counting_engine (getGranularParams (ready_store 1000))
          \<lparr>instancePtr = Some 4\<rparr> ready_wasm 8 = Inr (frames, wasm')"
    and po: "processOffline exact_values counting_engine ready_wasm (ready_store 1000)
          = Inr (wasm', (ready_store 1000)\<lparr>processedBuffer := Some (take 1000 (concat frames))\<rparr>)"
    and l: "length (take 1000 (concat frames)) = 1000"
    unfolding h g by blast
  from r have "frames = map (\<lambda>j. replicate 128 (real (Suc j))) [0..<8]"
    and "wasm' = \<lparr>wasmInitialized = True, wasmModule = Some 8\<rparr>"
    by (simp_all only: counting_engine_render_frames sum.inject prod.inject)
  with po l show ?thesis by simp
qed

section \<open>The real-time frame source\<close>

text \<open>
  C4, as amended: the audio callback writes into the output channel the host hands it and
  leaves the length of every output channel as it was (128 samples under the Web Audio
  render quantum); when the frame queue is empty at callback time it copies the live input
  frame to the output, with 0 for the samples the input lacks (pass-through), and returns
  without blocking or raising. The output is silence only where the input is.
\<close>

theorem process_keeps_length_and_passes_input_through:
  "map (map length) (snd (process inputs outputs p)) = map (map length) outputs
   \<and> (outputBuffer p = [] \<and> inputs = (ic # ir) # isr \<and> outputs = (oc # orest) # osr \<longrightarrow>
        process inputs outputs p
          = (p, (map (\<lambda>i. if i < length ic then ic ! i else 0) [0..<length oc] # orest) # osr))"
  using process_length [of inputs outputs p] process_empty_queue [of p ic ir isr oc orest osr]
  by blast

theorem process_keeps_length_and_passes_input_through_witness:
  "map (map length) (snd (process [[replicate 128 (1 / 2)]] [[replicate 128 0]] idle_processor))
     = [[128]]
   \<and> process [[replicate 128 (1 / 2)]] [[replicate 128 0]] idle_processor
       = (idle_processor, [[replicate 128 (1 / 2)]])"
proof -
  have q: "outputBuffer idle_processor = []" by (simp add: idle_processor_def)
  have m: "map (\<lambda>i. if i < length (replicate 128 (1 / 2 :: real))
                        then replicate 128 (1 / 2 :: real) ! i else 0)
             [0..<length (replicate 128 (0::real))] = replicate 128 (1 / 2 :: real)"
    by (rule passthrough_same_length) simp
  show ?thesis
    using process_keeps_length_and_passes_input_through
      [of "[[replicate 128 (1 / 2)]]" "[[replicate 128 0]]" idle_processor
          "replicate 128 (1 / 2)" "[]" "[]" "replicate 128 0" "[]" "[]"]
      q
    unfolding m by simp
qed

text \<open>On an empty queue an input frame of ones comes out as ones, not as silence.\<close>

theorem underrun_is_not_silence_counterexample:
  "outputBuffer idle_processor = []
   \<and> snd (process [[replicate 128 1]] [[replicate 128 0]] idle_processor) = [[replicate 128 1]]
   \<and> replicate 128 (1::real) \<noteq> replicate 128 0"
proof -
  have q: "outputBuffer idle_processor = []" by (simp add: idle_processor_def)
  have m: "map (\<lambda>i. if i < length (replicate 128 (1::real))
                        then replicate 128 (1::real) ! i else 0)
             [0..<length (replicate 128 (0::real))] = replicate 128 (1::real)"
    by (rule passthrough_same_length) simp
  have ne: "replicate 128 (1::real) \<noteq> replicate 128 0"
  proof
    assume "replicate 128 (1::real) = replicate 128 0"
    then have "replicate 128 (1::real) ! 0 = replicate 128 (0::real) ! 0" by (rule arg_cong)
    then show False by simp
  qed
  have "process [[replicate 128 1]] [[replicate 128 0]] idle_processor
          = (idle_processor, [[replicate 128 1]])"
    using process_empty_queue [OF q, of "replicate 128 1" "[]" "[]" "replicate 128 0" "[]" "[]"]
    unfolding m .
  then show ?thesis using q ne by simp
qed

text \<open>
  C7: the real-time frame queue is first-in first-out. A \<open>processedFrame\<close> message appends
  its frame at the back of the queue; an audio callback takes at most one frame, and only
  from the front; over any sequence of messages and callbacks the frames taken so far,
  followed by the frames still queued, are the frames enqueued, in the order they were
  enqueued; and the frame a callback takes is the one it writes to the output (cut or
  zero-padded to the length of the output channel).
\<close>

theorem frame_queue_is_fifo:
  "outputBuffer (onmessage p (ProcessedFrame (Some frame))) = outputBuffer p @ [frame]
   \<and> outputBuffer p = consumed_by p (fst (process inputs outputs p))
                        @ outputBuffer (fst (process inputs outputs p))
   \<and> length (consumed_by p (fst (process inputs outputs p))) \<le> 1
   \<and> outputBuffer p @ enqueued evs = delivered p evs @ outputBuffer (worklet_run p evs)
   \<and> (outputBuffer p = first # queue \<and> inputs = (ic # ir) # isr
        \<and> outputs = (oc # orest) # osr \<longrightarrow>
        process inputs outputs p
          = (p\<lparr>outputBuffer := queue\<rparr>, (fit_frame (length oc) first # orest) # osr))"
proof (intro conjI impI)
  show "outputBuffer (onmessage p (ProcessedFrame (Some frame))) = outputBuffer p @ [frame]"
    by simp
  show "outputBuffer p = consumed_by p (fst (process inputs outputs p))
                           @ outputBuffer (fst (process inputs outputs p))"
    using consumed_by_process [of p inputs outputs] by (rule conjunct1)
  show "length (consumed_by p (fst (process inputs outputs p))) \<le> 1"
    using consumed_by_process [of p inputs outputs] by (rule conjunct2)
  show "outputBuffer p @ enqueued evs = delivered p evs @ outputBuffer (worklet_run p evs)"
    by (rule queue_conservation)
next
  assume h: "outputBuffer p = first # queue \<and> inputs = (ic # ir) # isr
               \<and> outputs = (oc # orest) # osr"
  from h have q: "outputBuffer p = first # queue" by (rule conjunct1)
  from h have i: "inputs = (ic # ir) # isr" and o: "outputs = (oc # orest) # osr" by blast+
  show "process inputs outputs p
          = (p\<lparr>outputBuffer := queue\<rparr>, (fit_frame (length oc) first # orest) # osr)"
    unfolding i o by (rule process_queued_frame [OF q])
qed

theorem frame_queue_is_fifo_witness:
  "delivered idle_processor
      [Message (ProcessedFrame (Some [1, 2])), Message (ProcessedFrame (Some [3, 4])),
       Callback [[[0, 0]]] [[[9, 9]]], Message (ProcessedFrame (Some [5, 6])),
       Callback [[[0, 0]]] [[[9, 9]]]]
     = [[1, 2], [3, 4]]
   \<and> outputBuffer (worklet_run idle_processor
      [Message (ProcessedFrame (Some [1, 2])), Message (ProcessedFrame (Some [3, 4])),
       Callback [[[0, 0]]] [[[9, 9]]], Message (ProcessedFrame (Some [5, 6])),
       Callback [[[0, 0]]] [[[9, 9]]]])
     = [[5, 6]]
   \<and> process [[[0, 0]]] [[[9, 9]]] (idle_processor\<lparr>outputBuffer := [[1, 2], [3, 4]]\<rparr>)
       = (idle_processor\<lparr>outputBuffer := [[3, 4]]\<rparr>, [[[1, 2]]])"
proof -
  let ?evs = "[Message (ProcessedFrame (Some [1, 2])), Message (ProcessedFrame (Some [3, 4])),
       Callback [[[0, 0]]] [[[9, 9]]], Message (ProcessedFrame (Some [5, 6])),
       Callback [[[0::real, 0]]] [[[9::real, 9]]]]"
  let ?p = "idle_processor\<lparr>outputBuffer := [[1, 2], [3, 4]]\<rparr>"
  note fifo = frame_queue_is_fifo
      [of ?p "[]" "[[[0, 0]]]" "[[[9, 9]]]" "[]" "[1, 2]" "[[3, 4]]" "[0, 0]" "[]" "[]"
          "[9, 9]" "[]" "[]"]
  have pre: "outputBuffer ?p = [1, 2] # [[3, 4]] \<and> [[[0::real, 0]]] = ([0, 0] # []) # []
               \<and> [[[9::real, 9]]] = ([9, 9] # []) # []"
    by simp
  have "process [[[0, 0]]] [[[9, 9]]] ?p
          = (?p\<lparr>outputBuffer := [[3, 4]]\<rparr>,
             (fit_frame (length [9::real, 9]) [1, 2] # []) # [])"
    using fifo [THEN conjunct2, THEN conjunct2, THEN conjunct2, THEN conjunct2] pre
    by (rule mp)
  then have step: "process [[[0, 0]]] [[[9, 9]]] ?p
       = (idle_processor\<lparr>outputBuffer := [[3, 4]]\<rparr>, [[[1, 2]]])"
    by (simp add: fit_frame_def)
  have run: "outputBuffer (worklet_run idle_processor ?evs) = [[5, 6]]"
    by code_simp
  have enq: "outputBuffer idle_processor @ enqueued ?evs = [[1, 2], [3, 4]] @ [[5, 6]]"
    by (simp add: idle_processor_def)
  have "outputBuffer idle_processor @ enqueued ?evs
          = delivered idle_processor ?evs @ outputBuffer (worklet_run idle_processor ?evs)"
    by (rule frame_queue_is_fifo [of idle_processor "[]" "[]" "[]" ?evs,
          THEN conjunct2, THEN conjunct2, THEN conjunct2, THEN conjunct1])
  then have "[[1, 2], [3, 4]] @ [[5, 6]] = delivered idle_processor ?evs @ [[5, 6]]"
    unfolding run enq .
  then have d: "delivered idle_processor ?evs = [[1, 2], [3, 4]]"
    by (simp only: append_same_eq)
  show ?thesis by (intro conjI) (rule d, rule run, rule step)
qed

end
